theory Spec2Isabelle
  imports Complex_Main
begin

section \<open>Bounded ring (ring-buffer.ts)\<close>

text \<open>
  \<^verbatim>\<open>createRingBuffer<T>(capacity)\<close> closes over a private array \<open>items\<close>. The closure's
  state is the record below; every method takes the state and returns the new one.
  \<^verbatim>\<open>items.shift()\<close> removes the first element and does nothing on an empty array, which is
  what \<open>tl\<close> does on lists. \<^verbatim>\<open>[...items]\<close> copies the array: with values instead of
  references the copy is the list itself.
\<close>

record 'a ring_buffer =
  items :: "'a list"
  cap :: nat

definition createRingBuffer :: "nat \<Rightarrow> 'a ring_buffer" where
  "createRingBuffer c = \<lparr>items = [], cap = c\<rparr>"

definition push :: "'a ring_buffer \<Rightarrow> 'a \<Rightarrow> 'a ring_buffer" where
  "push r x =
     (let shifted = (if length (items r) \<ge> cap r then tl (items r) else items r)
      in r\<lparr>items := shifted @ [x]\<rparr>)"

definition toArray :: "'a ring_buffer \<Rightarrow> 'a list" where
  "toArray r = items r"

definition size_rb :: "'a ring_buffer \<Rightarrow> nat" where
  "size_rb r = length (items r)"

definition capacity :: "'a ring_buffer \<Rightarrow> nat" where
  "capacity r = cap r"

definition clear :: "'a ring_buffer \<Rightarrow> 'a ring_buffer" where
  "clear r = r\<lparr>items := []\<rparr>"

text \<open>The two mutating operations, as commands, and a run of them from a state.\<close>

datatype 'a ring_op = Push 'a | Clear

fun ring_step :: "'a ring_buffer \<Rightarrow> 'a ring_op \<Rightarrow> 'a ring_buffer" where
  "ring_step r (Push x) = push r x"
| "ring_step r Clear = clear r"

definition ring_run :: "'a ring_buffer \<Rightarrow> 'a ring_op list \<Rightarrow> 'a ring_buffer" where
  "ring_run r ops = foldl ring_step r ops"

section \<open>JavaScript values and strings\<close>

text \<open>
  A JavaScript string is modelled as a HOL \<open>string\<close>, the list of the bytes of its UTF-8
  encoding. The built-ins \<^verbatim>\<open>toLowerCase\<close>, \<^verbatim>\<open>toUpperCase\<close> and \<^verbatim>\<open>trim\<close> and the regular
  expression classes \<^verbatim>\<open>\s\<close>, \<^verbatim>\<open>\b\<close> and \<^verbatim>\<open>.\<close> are given on the ASCII range: white space
  is TAB, LF, VT, FF, CR and SPACE, letters are \<open>A\<close> to \<open>Z\<close> and \<open>a\<close> to \<open>z\<close>, the line
  terminators are LF and CR. Characters outside ASCII are bytes that are neither white
  space nor letters nor word characters.

  A value that the code receives as \<^verbatim>\<open>unknown\<close> is a \<open>jsval\<close>: a JSON value or
  \<^verbatim>\<open>undefined\<close>. Numbers are only ever compared, so they are rationals. An object is the
  list of its own properties in insertion order; reading a property that is absent gives
  \<^verbatim>\<open>undefined\<close>, and assigning to a property replaces its value in place or appends it.
\<close>

datatype jsval =
    JUndefined
  | JNull
  | JBool bool
  | JNum rat
  | JStr string
  | JArr "jsval list"
  | JObj "(string \<times> jsval) list"

type_synonym jsobject = "(string \<times> jsval) list"

definition get_prop :: "jsobject \<Rightarrow> string \<Rightarrow> jsval" where
  "get_prop obj k = (case map_of obj k of Some v \<Rightarrow> v | None \<Rightarrow> JUndefined)"

definition has_prop :: "jsobject \<Rightarrow> string \<Rightarrow> bool" where
  "has_prop obj k \<longleftrightarrow> map_of obj k \<noteq> None"

definition set_prop :: "jsobject \<Rightarrow> string \<Rightarrow> jsval \<Rightarrow> jsobject" where
  "set_prop obj k v =
     (if has_prop obj k then map (\<lambda>(k', v'). if k' = k then (k', v) else (k', v')) obj
      else obj @ [(k, v)])"


definition is_line_terminator :: "char \<Rightarrow> bool" where
  "is_line_terminator c \<longleftrightarrow> c = CHR 0x0A \<or> c = CHR 0x0D"

definition upper_letters :: string where
  "upper_letters = ''ABCDEFGHIJKLMNOPQRSTUVWXYZ''"

definition lower_letters :: string where
  "lower_letters = ''abcdefghijklmnopqrstuvwxyz''"

definition lower_char :: "char \<Rightarrow> char" where
  "lower_char c = (case map_of (zip upper_letters lower_letters) c of Some d \<Rightarrow> d | None \<Rightarrow> c)"

definition upper_char :: "char \<Rightarrow> char" where
  "upper_char c = (case map_of (zip lower_letters upper_letters) c of Some d \<Rightarrow> d | None \<Rightarrow> c)"

definition toLowerCase :: "string \<Rightarrow> string" where
  "toLowerCase s = map lower_char s"

definition toUpperCase :: "string \<Rightarrow> string" where
  "toUpperCase s = map upper_char s"

fun starts_with :: "string \<Rightarrow> string \<Rightarrow> bool" where
  "starts_with [] s = True"
| "starts_with (p # ps) [] = False"
| "starts_with (p # ps) (c # cs) = (p = c \<and> starts_with ps cs)"

text \<open>\<^verbatim>\<open>text.includes(pat)\<close>: \<open>pat\<close> occurs in \<open>text\<close> at some position.\<close>

fun str_includes :: "string \<Rightarrow> string \<Rightarrow> bool" where
  "str_includes [] pat = (pat = [])"
| "str_includes (c # cs) pat = (starts_with pat (c # cs) \<or> str_includes cs pat)"

text \<open>
  \<^verbatim>\<open>new URL(text)\<close> is the platform's URL parser. The functions that call it take it as
  the parameter \<open>new_URL\<close>, which returns \<open>None\<close> where the constructor throws and the
  fields the code reads otherwise.
\<close>

record parsed_url =
  hostname :: string
  pathname :: string
  search :: string

type_synonym url_parser = "string \<Rightarrow> parsed_url option"

section \<open>Evaluation sandbox (mcp-tools.ts)\<close>

subsection \<open>The two scan regexes\<close>





















subsection \<open>The tool \<open>evaluate_in_browser\<close>\<close>

text \<open>
  \<open>textResult data\<close> wraps \<^verbatim>\<open>JSON.stringify(data)\<close> in the tool envelope; the model keeps
  \<open>data\<close>. The handler either returns at once or, after \<open>hub.broadcastCommand\<close>, waits on
  a promise for the event carrying its \<open>evaluationId\<close>. The state is the counter
  \<open>evalCounter\<close> of the closure and the list of commands given to \<open>broadcastCommand\<close>.
  \<open>now\<close> is the value of \<^verbatim>\<open>Date.now()\<close>.
\<close>

definition errorResult :: "string \<Rightarrow> jsval" where
  "errorResult message = JObj [(''error'', JStr message)]"



fun dec :: "nat \<Rightarrow> string" where
  "dec n = (if n < 10 then [''0123456789'' ! n] else dec (n div 10) @ [''0123456789'' ! (n mod 10)])"

declare dec.simps [simp del]


subsection \<open>A model of the URL parser for concrete inputs\<close>

text \<open>
  The theorems below hold for every parser \<open>new_URL\<close>. Where a closed statement needs the
  parse of a concrete text, it uses this model of the platform's parser on texts of the
  shape \<^verbatim>\<open>scheme://[userinfo@]host[:port][/path][?query][#fragment]\<close>: a text with no
  scheme is a relative reference, which the constructor rejects when it is given no base.
\<close>

definition is_alpha :: "char \<Rightarrow> bool" where
  "is_alpha c \<longleftrightarrow> c \<in> set (upper_letters @ lower_letters)"

definition is_digit :: "char \<Rightarrow> bool" where
  "is_digit c \<longleftrightarrow> c \<in> set ''0123456789''"

definition scheme_ok :: "string \<Rightarrow> bool" where
  "scheme_ok s \<longleftrightarrow>
     (case s of [] \<Rightarrow> False
      | c # cs \<Rightarrow> is_alpha c \<and> list_all (\<lambda>d. is_alpha d \<or> is_digit d \<or> d \<in> set ''+-.'') cs)"

definition URL_model :: url_parser where
  "URL_model text =
     (let scheme = takeWhile (\<lambda>c. c \<noteq> CHR '':'') text;
          rest = dropWhile (\<lambda>c. c \<noteq> CHR '':'') text
      in if rest = [] \<or> \<not> scheme_ok scheme then None
         else if starts_with ''//'' (tl rest) then
           (let after = drop 3 rest;
                authority = takeWhile (\<lambda>c. c \<notin> set ''/?#'') after;
                tail = dropWhile (\<lambda>c. c \<notin> set ''/?#'') after;
                hostport = rev (takeWhile (\<lambda>c. c \<noteq> CHR ''@'') (rev authority));
                host = takeWhile (\<lambda>c. c \<noteq> CHR '':'') hostport;
                path = takeWhile (\<lambda>c. c \<notin> set ''?#'') tail;
                query = takeWhile (\<lambda>c. c \<noteq> CHR ''#'') (dropWhile (\<lambda>c. c \<notin> set ''?#'') tail)
            in if host = [] then None
               else Some \<lparr>hostname = toLowerCase host,
                          pathname = (if path = [] then ''/'' else path),
                          search = (if query = ''?'' then [] else query)\<rparr>)
         else
           (let tail = tl rest;
                path = takeWhile (\<lambda>c. c \<notin> set ''?#'') tail;
                query = takeWhile (\<lambda>c. c \<noteq> CHR ''#'') (dropWhile (\<lambda>c. c \<notin> set ''?#'') tail)
            in Some \<lparr>hostname = [], pathname = path,
                      search = (if query = ''?'' then [] else query)\<rparr>))"

subsection \<open>Concrete expressions\<close>





section \<open>Glob matcher (redactor.ts, watch-rules.ts)\<close>

text \<open>
  \<open>toGlobRegex\<close> builds the source text of a regular expression from the glob by four
  string replacements and hands \<^verbatim>\<open>`^${escaped}$`\<close> with the flag \<open>i\<close> to the platform's
  \<^verbatim>\<open>RegExp\<close>. \<open>replace_all pat rep\<close> is \<^verbatim>\<open>text.replace(/pat/g, rep)\<close> for a literal
  \<open>pat\<close>: leftmost matches that do not overlap. \<open>parse_items\<close> is the \<^verbatim>\<open>RegExp\<close> parser
  on the texts the replacements can produce (escaped special characters, other
  characters standing for themselves, the dot, and a star behind an atom); it returns
  \<open>None\<close> on any other text. \<open>regex_test\<close> is \<^verbatim>\<open>test\<close> for the anchored expression:
  the whole text has to match; the flag \<open>i\<close> compares characters after upper-casing;
  the dot matches any character except a line terminator.
\<close>

definition backslash :: char where
  "backslash = CHR 0x5C"

definition regex_specials :: string where
  "regex_specials = ''.*+?^${}()|[]'' @ [backslash]"

definition escapeRegExp :: "string \<Rightarrow> string" where
  "escapeRegExp input =
     concat (map (\<lambda>c. if c \<in> set regex_specials then [backslash, c] else [c]) input)"

function replace_all :: "string \<Rightarrow> string \<Rightarrow> string \<Rightarrow> string" where
  "replace_all pat rep [] = []"
| "replace_all pat rep (c # s) =
     (if pat \<noteq> [] \<and> starts_with pat (c # s)
      then rep @ replace_all pat rep (drop (length pat) (c # s))
      else c # replace_all pat rep s)"
  by pat_completeness auto
termination
  by (relation "measure (\<lambda>(pat, rep, s). length s)") auto

definition marker :: string where
  "marker = ''__DOUBLE_STAR__''"

definition glob_regex_body :: "string \<Rightarrow> string" where
  "glob_regex_body pattern =
     (let escaped = replace_all ''**'' marker pattern;
          escaped = escapeRegExp escaped;
          escaped = replace_all marker ''.*'' escaped;
          escaped = replace_all [backslash, CHR ''*''] ''.*'' escaped
      in escaped)"

datatype regex_atom = Lit char | AnyChar
datatype regex_item = One regex_atom | Star regex_atom

fun parse_atom :: "string \<Rightarrow> (regex_atom \<times> string) option" where
  "parse_atom [] = None"
| "parse_atom (c # s) =
     (if c = backslash then
        (case s of
           [] \<Rightarrow> None
         | d # s' \<Rightarrow> if d \<in> set regex_specials then Some (Lit d, s') else None)
      else if c = CHR ''.'' then Some (AnyChar, s)
      else if c \<in> set regex_specials then None
      else Some (Lit c, s))"

lemma parse_atom_shorter: "parse_atom s = Some (a, rest) \<Longrightarrow> length rest < length s"
  by (cases s) (auto split: if_splits list.splits)

function parse_items :: "string \<Rightarrow> regex_item list option" where
  "parse_items s =
     (if s = [] then Some []
      else
        (case parse_atom s of
           None \<Rightarrow> None
         | Some (a, rest) \<Rightarrow>
             (case rest of
                [] \<Rightarrow> Some [One a]
              | c # rest' \<Rightarrow>
                  if c = CHR ''*'' then map_option (\<lambda>items. Star a # items) (parse_items rest')
                  else map_option (\<lambda>items. One a # items) (parse_items rest))))"
  by pat_completeness auto
termination
  by (relation "measure length") (auto dest: parse_atom_shorter)

definition canonicalize :: "char \<Rightarrow> char" where
  "canonicalize c = upper_char c"

fun atom_matches :: "regex_atom \<Rightarrow> char \<Rightarrow> bool" where
  "atom_matches (Lit d) c = (canonicalize d = canonicalize c)"
| "atom_matches AnyChar c = (\<not> is_line_terminator c)"

fun regex_test :: "regex_item list \<Rightarrow> string \<Rightarrow> bool" where
  "regex_test [] s = (s = [])"
| "regex_test (One a # rs) [] = False"
| "regex_test (One a # rs) (c # s) = (atom_matches a c \<and> regex_test rs s)"
| "regex_test (Star a # rs) [] = regex_test rs []"
| "regex_test (Star a # rs) (c # s) =
     (regex_test rs (c # s) \<or> (atom_matches a c \<and> regex_test (Star a # rs) s))"

definition toGlobRegex :: "string \<Rightarrow> regex_item list option" where
  "toGlobRegex pattern = parse_items (glob_regex_body pattern)"

definition normalizeUrlForMatch :: "url_parser \<Rightarrow> string \<Rightarrow> string" where
  "normalizeUrlForMatch new_URL url =
     (case new_URL url of Some parsed \<Rightarrow> pathname parsed @ search parsed | None \<Rightarrow> url)"

subsection \<open>The glob as the specification reads it\<close>

text \<open>
  An anchored, case-insensitive matcher in which every \<open>*\<close>, alone or doubled, matches any
  characters.
\<close>

fun glob_matches :: "string \<Rightarrow> string \<Rightarrow> bool" where
  "glob_matches [] s = (s = [])"
| "glob_matches (p # ps) [] = (p = CHR ''*'' \<and> glob_matches ps [])"
| "glob_matches (p # ps) (c # cs) =
     (if p = CHR ''*'' then glob_matches ps (c # cs) \<or> glob_matches (p # ps) cs
      else canonicalize p = canonicalize c \<and> glob_matches ps cs)"













section \<open>Events and the redactor (types.ts, redactor.ts)\<close>

datatype event_source =
    Src_vite | Src_next | Src_devserver
  | Src_browser_console | Src_browser_network | Src_browser_dom | Src_browser_storage

datatype event_level = Lvl_info | Lvl_warn | Lvl_error | Lvl_debug

record daibug_event =
  event_id :: string
  ts :: nat
  source :: event_source
  level :: event_level
  payload :: jsobject

record redact_config =
  redact_fields :: "string list"
  redact_urlPatterns :: "string list"

definition REDACTED :: string where
  "REDACTED = ''[REDACTED]''"

definition REDACTED_ENDPOINT :: string where
  "REDACTED_ENDPOINT = ''[REDACTED - sensitive endpoint]''"

definition sensitiveFields :: "redact_config \<Rightarrow> string list" where
  "sensitiveFields config = map toLowerCase (redact_fields config)"

fun deepCloneAndRedact :: "string list \<Rightarrow> string option \<Rightarrow> jsval \<Rightarrow> jsval" where
  "deepCloneAndRedact sf currentKey v =
     (if (case currentKey of None \<Rightarrow> False | Some k \<Rightarrow> k \<noteq> [] \<and> toLowerCase k \<in> set sf)
         \<and> v \<noteq> JUndefined
      then JStr REDACTED
      else
        (case v of
           JArr xs \<Rightarrow> JArr (map (deepCloneAndRedact sf None) xs)
         | JObj input \<Rightarrow>
             JObj (map (\<lambda>(key, nestedValue). (key, deepCloneAndRedact sf (Some key) nestedValue)) input)
         | _ \<Rightarrow> v))"

declare deepCloneAndRedact.simps [simp del]

definition isRedactedUrl :: "url_parser \<Rightarrow> redact_config \<Rightarrow> string \<Rightarrow> bool" where
  "isRedactedUrl new_URL config url =
     (let normalizedUrl = normalizeUrlForMatch new_URL url
      in list_ex (\<lambda>pattern. case toGlobRegex pattern of
                               Some matcher \<Rightarrow> regex_test matcher normalizedUrl
                             | None \<Rightarrow> False)
                 (redact_urlPatterns config))"

definition redactObject :: "redact_config \<Rightarrow> jsobject \<Rightarrow> jsobject" where
  "redactObject config obj =
     (case deepCloneAndRedact (sensitiveFields config) None (JObj obj) of
        JObj out \<Rightarrow> out
      | _ \<Rightarrow> [])"

definition redactEvent :: "url_parser \<Rightarrow> redact_config \<Rightarrow> daibug_event \<Rightarrow> daibug_event" where
  "redactEvent new_URL config event =
     (let p0 = redactObject config (payload event);
          p1 = (if source event = Src_browser_network then
                  (case get_prop p0 ''url'' of
                     JStr url \<Rightarrow>
                       if isRedactedUrl new_URL config url
                       then set_prop (set_prop p0 ''requestBody'' (JStr REDACTED_ENDPOINT))
                                     ''responseBody'' (JStr REDACTED_ENDPOINT)
                       else p0
                   | _ \<Rightarrow> p0)
                else p0);
          p2 = (if source event = Src_browser_storage then
                  (case get_prop p1 ''key'' of
                     JStr key \<Rightarrow>
                       if toLowerCase key \<in> set (sensitiveFields config) then
                         (let q = (if has_prop p1 ''value''
                                   then set_prop p1 ''value'' (JStr REDACTED) else p1)
                          in if has_prop q ''previousValue''
                             then set_prop q ''previousValue'' (JStr REDACTED) else q)
                       else p1
                   | _ \<Rightarrow> p1)
                else p1)
      in event\<lparr>payload := p2\<rparr>)"


section \<open>The hub (event.ts, detector.ts, hub.ts)\<close>

subsection \<open>Event factory (event.ts)\<close>

record event_factory =
  seq :: nat
  inBatch :: bool

definition padStart3 :: "string \<Rightarrow> string" where
  "padStart3 s = replicate (3 - length s) (CHR ''0'') @ s"

definition createEvent ::
    "nat \<Rightarrow> event_source \<Rightarrow> event_level \<Rightarrow> jsobject \<Rightarrow> event_factory \<Rightarrow> daibug_event \<times> event_factory" where
  "createEvent now src lvl pl f =
     (let f1 = (if \<not> inBatch f then \<lparr>seq = 0, inBatch = True\<rparr> else f);
          f2 = f1\<lparr>seq := seq f1 + 1\<rparr>
      in (\<lparr>event_id = ''evt_'' @ dec now @ ''_'' @ padStart3 (dec (seq f2)),
           ts = now, source = src, level = lvl, payload = pl\<rparr>, f2))"

subsection \<open>Framework detector (detector.ts)\<close>

definition is_word_char :: "char \<Rightarrow> bool" where
  "is_word_char c \<longleftrightarrow> is_alpha c \<or> is_digit c \<or> c = CHR ''_''"


fun word_match :: "string \<Rightarrow> bool \<Rightarrow> string \<Rightarrow> bool" where
  "word_match w prev_is_word [] = False"
| "word_match w prev_is_word (c # s) =
     ((\<not> prev_is_word \<and> starts_with w (c # s)
        \<and> (case drop (length w) (c # s) of [] \<Rightarrow> True | d # r \<Rightarrow> \<not> is_word_char d))
      \<or> word_match w (is_word_char c) s)"





record detector =
  locked :: "event_source option"




definition detectFramework :: "string \<Rightarrow> event_source option" where
  "detectFramework cmd =
     (if word_match ''next'' False (toLowerCase cmd) then Some Src_next
      else if word_match ''vite'' False (toLowerCase cmd) then Some Src_vite
      else None)"

subsection \<open>Hub state (hub.ts)\<close>

record interaction_event =
  interaction_id :: string
  interaction_ts :: nat
  interaction_type :: string
  interaction_target :: "string option"
  interaction_value :: "string option"
  interaction_url :: "string option"
  interaction_x :: "rat option"
  interaction_y :: "rat option"

record tab_info =
  tabId :: rat
  tab_url :: string
  tab_title :: string
  connectedAt :: nat

record 'w listener_result =
  event_after :: daibug_event
  world_after :: 'w
  threw :: bool
  unsubscribed :: bool

type_synonym 'w listener = "daibug_event \<Rightarrow> 'w \<Rightarrow> 'w listener_result"

record 'w hub =
  redact :: redact_config
  buffer :: "daibug_event ring_buffer"
  interactions :: "interaction_event ring_buffer"
  eventListeners :: "(nat \<times> 'w listener) list"
  connectedTabs :: "(rat \<times> tab_info) list"
  interactionSeq :: nat
  wss_frames :: "daibug_event list option"
  detector :: detector
  factory :: event_factory
  world :: 'w

definition map_set :: "('k \<times> 'v) list \<Rightarrow> 'k \<Rightarrow> 'v \<Rightarrow> ('k \<times> 'v) list" where
  "map_set m k v =
     (if map_of m k \<noteq> None then map (\<lambda>(k', v'). if k' = k then (k', v) else (k', v')) m
      else m @ [(k, v)])"

definition updateConnectedTabFromPayload :: "nat \<Rightarrow> jsobject \<Rightarrow> 'w hub \<Rightarrow> 'w hub" where
  "updateConnectedTabFromPayload now pl h =
     (case get_prop pl ''tabId'' of
        JNum tid \<Rightarrow>
          (let existing = map_of (connectedTabs h) tid;
               url = (case get_prop pl ''tabUrl'' of
                        JStr u \<Rightarrow> u
                      | _ \<Rightarrow> (case get_prop pl ''url'' of
                                JStr u \<Rightarrow> u
                              | _ \<Rightarrow> (case existing of Some t \<Rightarrow> tab_url t | None \<Rightarrow> [])));
               title = (case get_prop pl ''tabTitle'' of
                          JStr t \<Rightarrow> t
                        | _ \<Rightarrow> (case existing of Some t \<Rightarrow> tab_title t | None \<Rightarrow> []))
           in h\<lparr>connectedTabs := map_set (connectedTabs h) tid
                  \<lparr>tabId = tid, tab_url = url, tab_title = title,
                   connectedAt = (case existing of Some t \<Rightarrow> connectedAt t | None \<Rightarrow> now)\<rparr>\<rparr>)
      | _ \<Rightarrow> h)"

definition upsertConnectedTab :: "nat \<Rightarrow> rat \<Rightarrow> string \<Rightarrow> string \<Rightarrow> 'w hub \<Rightarrow> 'w hub" where
  "upsertConnectedTab now tid url title h =
     (let existing = map_of (connectedTabs h) tid
      in h\<lparr>connectedTabs := map_set (connectedTabs h) tid
             \<lparr>tabId = tid, tab_url = url, tab_title = title,
              connectedAt = (case existing of Some t \<Rightarrow> connectedAt t | None \<Rightarrow> now)\<rparr>\<rparr>)"

text \<open>
  The loop \<^verbatim>\<open>for (const listener of eventListeners)\<close> of \<open>addEvent\<close> walks the live array
  by index: \<open>i\<close> is the iterator's position. A listener that unsubscribes itself is spliced
  out while the position stands on it. \<open>e\<close> is the event object, which the listeners may
  mutate.
\<close>

definition remove_listener :: "nat \<Rightarrow> (nat \<times> 'w listener) list \<Rightarrow> (nat \<times> 'w listener) list" where
  "remove_listener hid ls =
     takeWhile (\<lambda>l. fst l \<noteq> hid) ls @ drop 1 (dropWhile (\<lambda>l. fst l \<noteq> hid) ls)"

function notify :: "nat \<Rightarrow> daibug_event \<Rightarrow> 'w hub \<Rightarrow> daibug_event \<times> 'w hub" where
  "notify i e h =
     (if i < length (eventListeners h) then
        (let (hid, listener) = eventListeners h ! i;
             r = listener e (world h);
             h' = h\<lparr>world := world_after r,
                    eventListeners := (if unsubscribed r then remove_listener hid (eventListeners h)
                                       else eventListeners h)\<rparr>
         in notify (Suc i) (event_after r) h')
      else (e, h))"
  by pat_completeness auto

lemma length_remove_listener: "length (remove_listener hid ls) \<le> length ls"
proof -
  have "length (takeWhile (\<lambda>l. fst l \<noteq> hid) ls) + length (dropWhile (\<lambda>l. fst l \<noteq> hid) ls)
        = length ls"
    by (metis length_append takeWhile_dropWhile_id)
  then show ?thesis by (simp add: remove_listener_def)
qed

lemma remove_listener_measure:
  "i < length ls \<Longrightarrow> length (remove_listener hid ls) - Suc i < length ls - i"
  using length_remove_listener [of hid ls] by simp

termination notify
  apply (relation "measure (\<lambda>(i, e, h). length (eventListeners h) - i)")
   apply simp
  apply (auto simp: remove_listener_measure)
  done

definition store_back :: "daibug_event \<Rightarrow> daibug_event ring_buffer \<Rightarrow> daibug_event ring_buffer" where
  "store_back e r = r\<lparr>items := butlast (items r) @ [e]\<rparr>"

definition addEvent :: "daibug_event \<Rightarrow> 'w hub \<Rightarrow> 'w hub" where
  "addEvent event h =
     (let h1 = h\<lparr>buffer := push (buffer h) event\<rparr>;
          h2 = h1\<lparr>wss_frames := map_option (\<lambda>frames. frames @ [event]) (wss_frames h1)\<rparr>;
          (e', h3) = notify 0 event h2
      in h3\<lparr>buffer := store_back e' (buffer h3)\<rparr>)"

definition ingestEvent ::
    "url_parser \<Rightarrow> nat \<Rightarrow> event_source \<Rightarrow> event_level \<Rightarrow> jsobject \<Rightarrow> 'w hub \<Rightarrow> 'w hub" where
  "ingestEvent new_URL now src lvl pl h =
     (let h1 = updateConnectedTabFromPayload now pl h;
          (event, f) = createEvent now src lvl pl (factory h1);
          redactedEvent = redactEvent new_URL (redact h1) event
      in addEvent redactedEvent (h1\<lparr>factory := f\<rparr>))"

definition end_of_task :: "'w hub \<Rightarrow> 'w hub" where
  "end_of_task h = h\<lparr>factory := (factory h)\<lparr>inBatch := False\<rparr>\<rparr>"





definition normalizeEventSource :: "jsval \<Rightarrow> event_source option" where
  "normalizeEventSource input =
     (case input of
        JStr s \<Rightarrow> map_of [(''vite'', Src_vite), (''next'', Src_next), (''devserver'', Src_devserver),
                            (''browser:console'', Src_browser_console),
                            (''browser:network'', Src_browser_network),
                            (''browser:dom'', Src_browser_dom),
                            (''browser:storage'', Src_browser_storage)] s
      | _ \<Rightarrow> None)"

definition normalizeEventLevel :: "jsval \<Rightarrow> event_level option" where
  "normalizeEventLevel input =
     (case input of
        JStr s \<Rightarrow> map_of [(''info'', Lvl_info), (''warn'', Lvl_warn), (''error'', Lvl_error),
                            (''debug'', Lvl_debug)] s
      | _ \<Rightarrow> None)"

definition normalizePayload :: "jsval \<Rightarrow> jsobject option" where
  "normalizePayload input = (case input of JObj obj \<Rightarrow> Some obj | _ \<Rightarrow> None)"

definition str_opt :: "jsval \<Rightarrow> string option" where
  "str_opt v = (case v of JStr s \<Rightarrow> Some s | _ \<Rightarrow> None)"

definition num_opt :: "jsval \<Rightarrow> rat option" where
  "num_opt v = (case v of JNum n \<Rightarrow> Some n | _ \<Rightarrow> None)"

definition ingest_validated :: "url_parser \<Rightarrow> nat \<Rightarrow> jsobject \<Rightarrow> 'w hub \<Rightarrow> 'w hub" where
  "ingest_validated new_URL now msg h =
     (case (normalizeEventSource (get_prop msg ''source''),
            normalizeEventLevel (get_prop msg ''level''),
            normalizePayload (get_prop msg ''payload'')) of
        (Some src, Some lvl, Some pl) \<Rightarrow> ingestEvent new_URL now src lvl pl h
      | _ \<Rightarrow> h)"

definition handleWsMessage :: "url_parser \<Rightarrow> nat \<Rightarrow> jsval option \<Rightarrow> 'w hub \<Rightarrow> 'w hub" where
  "handleWsMessage new_URL now parsed h =
     end_of_task
     (case parsed of
        None \<Rightarrow> h
      | Some m \<Rightarrow>
          (case m of
             JObj msg \<Rightarrow>
               if get_prop msg ''type'' = JStr ''browser_tab_info'' then
                 (case (get_prop msg ''tabId'', get_prop msg ''tabUrl'', get_prop msg ''tabTitle'') of
                    (JNum tid, JStr tabUrl, JStr tabTitle) \<Rightarrow> upsertConnectedTab now tid tabUrl tabTitle h
                  | _ \<Rightarrow> h)
               else if get_prop msg ''type'' = JStr ''browser_interaction'' then
                 (let n = interactionSeq h + 1;
                      interaction =
                        \<lparr>interaction_id = ''int_'' @ dec now @ ''_'' @ padStart3 (dec n),
                         interaction_ts = now,
                         interaction_type = (case get_prop msg ''interactionType'' of
                                               JStr t \<Rightarrow> t | _ \<Rightarrow> ''unknown''),
                         interaction_target = str_opt (get_prop msg ''target''),
                         interaction_value = str_opt (get_prop msg ''value''),
                         interaction_url = str_opt (get_prop msg ''url''),
                         interaction_x = num_opt (get_prop msg ''x''),
                         interaction_y = num_opt (get_prop msg ''y'')\<rparr>
                  in h\<lparr>interactionSeq := n, interactions := push (interactions h) interaction\<rparr>)
               else if get_prop msg ''type'' = JStr ''browser_storage'' then
                 (case normalizePayload
                         (if get_prop msg ''payload'' = JNull \<or> get_prop msg ''payload'' = JUndefined
                          then JObj msg else get_prop msg ''payload'') of
                    None \<Rightarrow> h
                  | Some pl \<Rightarrow> ingestEvent new_URL now Src_browser_storage Lvl_info pl h)
               else if get_prop msg ''type'' = JStr ''browser_event'' then
                 ingest_validated new_URL now msg h
               else ingest_validated new_URL now msg h
           | _ \<Rightarrow> h))"

subsection \<open>Subscribing (hub.ts, \<open>onBrowserEvent\<close>)\<close>

text \<open>
  \<open>onBrowserEvent\<close> appends the handler and then calls it, inside \<^verbatim>\<open>try\<close>/\<^verbatim>\<open>catch\<close>, on every
  event of the copy \<open>buffer.toArray()\<close>. The events of the copy are the objects the ring
  holds, so what the handler does to an event shows in the ring. The function value it
  returns, \<open>unsubscribe\<close>, is the handler's identity \<open>hid\<close> given to \<open>unsubscribe_listener\<close>.
\<close>

fun replay :: "nat \<Rightarrow> 'w listener \<Rightarrow> daibug_event list \<Rightarrow> 'w hub \<Rightarrow> daibug_event list \<times> 'w hub" where
  "replay hid handler [] h = ([], h)"
| "replay hid handler (event # events) h =
     (let r = handler event (world h);
          h' = h\<lparr>world := world_after r,
                 eventListeners := (if unsubscribed r then remove_listener hid (eventListeners h)
                                    else eventListeners h)\<rparr>;
          (events', h'') = replay hid handler events h'
      in (event_after r # events', h''))"

definition onBrowserEvent :: "nat \<Rightarrow> 'w listener \<Rightarrow> 'w hub \<Rightarrow> 'w hub" where
  "onBrowserEvent hid handler h =
     (let h1 = h\<lparr>eventListeners := eventListeners h @ [(hid, handler)]\<rparr>;
          (events', h2) = replay hid handler (toArray (buffer h1)) h1
      in h2\<lparr>buffer := (buffer h2)\<lparr>items := events'\<rparr>\<rparr>)"

definition unsubscribe_listener :: "nat \<Rightarrow> 'w hub \<Rightarrow> 'w hub" where
  "unsubscribe_listener hid h = h\<lparr>eventListeners := remove_listener hid (eventListeners h)\<rparr>"

text \<open>The calls a handler receives during the replay, in order, and the states it runs in.\<close>

fun replay_world :: "'w listener \<Rightarrow> daibug_event list \<Rightarrow> 'w \<Rightarrow> 'w" where
  "replay_world handler [] w = w"
| "replay_world handler (event # events) w = replay_world handler events (world_after (handler event w))"

subsection \<open>The waiting tools (mcp-tools.ts)\<close>

text \<open>
  \<open>snapshot_dom\<close> broadcasts its command and then runs, inside the promise executor,
  \<^verbatim>\<open>const unsubscribe = hub.onBrowserEvent((event) => { ... })\<close> followed by \<open>setTimeout\<close>.
  The closure's variables are the world of its listener: \<open>settled\<close>; whether the
  \<^verbatim>\<open>const unsubscribe\<close> has been initialised, which happens when \<open>onBrowserEvent\<close> returns;
  and the value given to \<open>resolve\<close>, if any. Reading \<open>unsubscribe\<close> before it is initialised
  throws a \<open>ReferenceError\<close>.
\<close>

record waiter =
  settled :: bool
  unsubscribe_initialised :: bool
  resolved :: "jsval option"

definition snapshot_dom_listener :: "waiter listener" where
  "snapshot_dom_listener event w =
     (if settled w \<or> source event \<noteq> Src_browser_dom
         \<or> get_prop (payload event) ''type'' \<noteq> JStr ''dom_snapshot''
      then \<lparr>event_after = event, world_after = w, threw = False, unsubscribed = False\<rparr>
      else
        (let w1 = w\<lparr>settled := True\<rparr>
         in if \<not> unsubscribe_initialised w1
            then \<lparr>event_after = event, world_after = w1, threw = True, unsubscribed = False\<rparr>
            else \<lparr>event_after = event, world_after = w1\<lparr>resolved := Some (JObj (payload event))\<rparr>,
                  threw = False, unsubscribed = True\<rparr>))"

definition snapshot_dom_timeout :: "nat \<Rightarrow> waiter hub \<Rightarrow> waiter hub" where
  "snapshot_dom_timeout hid h =
     (if settled (world h) then h
      else (unsubscribe_listener hid h)
             \<lparr>world := (world h)\<lparr>settled := True,
                  resolved := Some (errorResult
                    ''Timeout waiting for DOM snapshot - no extension connected or responding'')\<rparr>\<rparr>)"

text \<open>
  The promise executor of \<open>snapshot_dom\<close>, after the broadcast: subscribe, then the
  \<^verbatim>\<open>const\<close> is initialised. The timer fires later, as \<open>snapshot_dom_timeout\<close>.
\<close>

definition fresh_waiter :: waiter where
  "fresh_waiter = \<lparr>settled = False, unsubscribe_initialised = False, resolved = None\<rparr>"

definition snapshot_dom_subscribe :: "nat \<Rightarrow> waiter hub \<Rightarrow> waiter hub" where
  "snapshot_dom_subscribe hid h =
     (let h1 = onBrowserEvent hid snapshot_dom_listener (h\<lparr>world := fresh_waiter\<rparr>)
      in h1\<lparr>world := (world h1)\<lparr>unsubscribe_initialised := True\<rparr>\<rparr>)"

text \<open>What can happen to a waiting tool afterwards: an event is ingested, or its timer fires.\<close>

datatype later_step = Ingest event_source event_level jsobject | Timer

fun later :: "url_parser \<Rightarrow> nat \<Rightarrow> nat \<Rightarrow> later_step \<Rightarrow> waiter hub \<Rightarrow> waiter hub" where
  "later new_URL now hid (Ingest src lvl pl) h = end_of_task (ingestEvent new_URL now src lvl pl h)"
| "later new_URL now hid Timer h = snapshot_dom_timeout hid h"

text \<open>A waiting \<open>snapshot_dom\<close> that has settled without resolving, on a hub whose listeners are all of its kind.\<close>

definition stuck :: "waiter hub \<Rightarrow> bool" where
  "stuck h \<longleftrightarrow> settled (world h) \<and> resolved (world h) = None
     \<and> (\<forall>l \<in> set (eventListeners h). snd l = snapshot_dom_listener)"

subsection \<open>A started hub with the default configuration\<close>

text \<open>
  The state \<open>createHub\<close> and \<open>start\<close> leave behind when no listener is registered: the
  default redact configuration, empty rings of capacity 500 and 200, a WebSocket server
  that has sent nothing, an unlocked detector.
\<close>

definition DEFAULT_REDACT :: redact_config where
  "DEFAULT_REDACT =
     \<lparr>redact_fields = [''password'', ''token'', ''authorization'', ''cookie''],
      redact_urlPatterns = []\<rparr>"

definition started_hub :: "'w \<Rightarrow> 'w hub" where
  "started_hub w =
     \<lparr>redact = DEFAULT_REDACT,
      buffer = createRingBuffer 500,
      interactions = createRingBuffer 200,
      eventListeners = [],
      connectedTabs = [],
      interactionSeq = 0,
      wss_frames = Some [],
      detector = \<lparr>locked = None\<rparr>,
      factory = \<lparr>seq = 0, inBatch = False\<rparr>,
      world = w\<rparr>"



definition typed_unknown_message :: jsval where
  "typed_unknown_message =
     JObj [(''type'', JStr ''custom''), (''source'', JStr ''browser:console''),
           (''level'', JStr ''info''), (''payload'', JObj [(''a'', JNum 1)])]"

definition dom_snapshot_event :: daibug_event where
  "dom_snapshot_event =
     \<lparr>event_id = ''evt_1000_001'', ts = 1000, source = Src_browser_dom, level = Lvl_info,
      payload = [(''type'', JStr ''dom_snapshot''), (''nodeCount'', JNum 142),
                 (''snapshot'', JStr ''<html/>'')]\<rparr>"

definition hub_with_snapshot :: "waiter hub" where
  "hub_with_snapshot =
     (started_hub fresh_waiter)\<lparr>buffer := push (createRingBuffer 500) dom_snapshot_event\<rparr>"






section \<open>Watch-rule engine (watch-rules.ts)\<close>

record watch_conditions =
  statusCodes :: "rat list option"
  urlPattern :: "string option"
  methods :: "string list option"
  levels :: "event_level list option"
  messageContains :: "string option"
  payloadContains :: "jsobject option"

record watch_rule =
  rule_id :: string
  rule_label :: string
  rule_source :: "event_source option"
  conditions :: watch_conditions
  createdAt :: nat
  active :: bool

record watched_event =
  watched :: daibug_event
  matchedRule_id :: string
  matchedRule_label :: string
  matchedAt :: nat

record watch_engine =
  rules :: "watch_rule list"
  watchedEvents :: "watched_event list"
  ruleSeq :: nat

definition WATCHED_CAPACITY :: nat where
  "WATCHED_CAPACITY = 200"

definition matchUrlPattern :: "url_parser \<Rightarrow> string \<Rightarrow> string \<Rightarrow> bool" where
  "matchUrlPattern new_URL url pattern =
     (case toGlobRegex pattern of
        Some matcher \<Rightarrow> regex_test matcher (normalizeUrlForMatch new_URL url)
      | None \<Rightarrow> False)"

text \<open>
  \<^verbatim>\<open>a !== b\<close> is \<open>\<not> strict_eq a b\<close>. Primitive values are compared by value. Arrays and
  objects are compared by identity, and a value of a rule is never the same object as a
  value of an event's payload.
\<close>

definition strict_eq :: "jsval \<Rightarrow> jsval \<Rightarrow> bool" where
  "strict_eq a b \<longleftrightarrow>
     a = b \<and> (case a of JArr xs \<Rightarrow> False | JObj obj \<Rightarrow> False | _ \<Rightarrow> True)"

text \<open>The loop over the indices of \<open>expectedValue\<close>; \<open>actualValue[i]\<close> past the end is \<open>undefined\<close>.\<close>

fun array_prefix_eq :: "jsval list \<Rightarrow> jsval list \<Rightarrow> bool" where
  "array_prefix_eq actual [] = True"
| "array_prefix_eq [] (e # es) = (strict_eq JUndefined e \<and> array_prefix_eq [] es)"
| "array_prefix_eq (a # as) (e # es) = (strict_eq a e \<and> array_prefix_eq as es)"

fun deepPartialMatch :: "jsobject \<Rightarrow> jsobject \<Rightarrow> bool" where
  "deepPartialMatch actual expected =
     list_all (\<lambda>(key, expectedValue).
        has_prop actual key \<and>
        (case expectedValue of
           JArr es \<Rightarrow> (case get_prop actual key of JArr as \<Rightarrow> array_prefix_eq as es | _ \<Rightarrow> False)
         | JObj eo \<Rightarrow> (case get_prop actual key of
                         JObj ao \<Rightarrow> deepPartialMatch ao eo
                       | actualValue \<Rightarrow> strict_eq actualValue expectedValue)
         | _ \<Rightarrow> strict_eq (get_prop actual key) expectedValue))
       expected"

declare deepPartialMatch.simps [simp del]

definition eventLevelMatches :: "event_level list option \<Rightarrow> event_level \<Rightarrow> bool" where
  "eventLevelMatches ls lvl =
     (case ls of None \<Rightarrow> True | Some l \<Rightarrow> if l = [] then True else lvl \<in> set l)"

definition sourceMatches :: "event_source option \<Rightarrow> event_source \<Rightarrow> bool" where
  "sourceMatches src eventSource = (case src of None \<Rightarrow> True | Some s \<Rightarrow> s = eventSource)"

text \<open>
  \<open>conditionsMatch\<close> is a chain of guarded early returns; each definition below is one
  guarded block, \<open>True\<close> when the block does not return \<open>false\<close>.
\<close>

definition statusCodes_ok :: "jsobject \<Rightarrow> watch_conditions \<Rightarrow> bool" where
  "statusCodes_ok pl c =
     (case statusCodes c of
        None \<Rightarrow> True
      | Some codes \<Rightarrow>
          if codes = [] then True
          else (case get_prop pl ''status'' of JNum status \<Rightarrow> status \<in> set codes | _ \<Rightarrow> False))"

definition urlPattern_ok :: "url_parser \<Rightarrow> jsobject \<Rightarrow> watch_conditions \<Rightarrow> bool" where
  "urlPattern_ok new_URL pl c =
     (case urlPattern c of
        None \<Rightarrow> True
      | Some pattern \<Rightarrow>
          if pattern = [] then True
          else (case get_prop pl ''url'' of
                  JStr url \<Rightarrow> matchUrlPattern new_URL url pattern
                | _ \<Rightarrow> False))"

definition methods_ok :: "jsobject \<Rightarrow> watch_conditions \<Rightarrow> bool" where
  "methods_ok pl c =
     (case methods c of
        None \<Rightarrow> True
      | Some ms \<Rightarrow>
          if ms = [] then True
          else (case get_prop pl ''method'' of
                  JStr method \<Rightarrow> toUpperCase method \<in> set (map toUpperCase ms)
                | _ \<Rightarrow> False))"

definition messageContains_ok :: "jsobject \<Rightarrow> watch_conditions \<Rightarrow> bool" where
  "messageContains_ok pl c =
     (case messageContains c of
        None \<Rightarrow> True
      | Some text \<Rightarrow>
          if text = [] then True
          else (case get_prop pl ''message'' of
                  JStr message \<Rightarrow> str_includes (toLowerCase message) (toLowerCase text)
                | _ \<Rightarrow> False))"

definition payloadContains_ok :: "jsobject \<Rightarrow> watch_conditions \<Rightarrow> bool" where
  "payloadContains_ok pl c =
     (case payloadContains c of None \<Rightarrow> True | Some expected \<Rightarrow> deepPartialMatch pl expected)"

definition conditionsMatch :: "url_parser \<Rightarrow> daibug_event \<Rightarrow> watch_conditions \<Rightarrow> bool" where
  "conditionsMatch new_URL event c =
     (if \<not> statusCodes_ok (payload event) c then False
      else if \<not> urlPattern_ok new_URL (payload event) c then False
      else if \<not> methods_ok (payload event) c then False
      else if \<not> eventLevelMatches (levels c) (level event) then False
      else if \<not> messageContains_ok (payload event) c then False
      else if \<not> payloadContains_ok (payload event) c then False
      else True)"

definition addWatchedEvent ::
    "nat \<Rightarrow> watched_event list \<Rightarrow> daibug_event \<Rightarrow> watch_rule \<Rightarrow> watched_event list" where
  "addWatchedEvent now buf event rule =
     (let unshifted = \<lparr>watched = event, matchedRule_id = rule_id rule,
                        matchedRule_label = rule_label rule, matchedAt = now\<rparr> # buf
      in if length unshifted > WATCHED_CAPACITY then take WATCHED_CAPACITY unshifted
         else unshifted)"

definition annotate :: "watch_rule \<Rightarrow> daibug_event \<Rightarrow> daibug_event" where
  "annotate rule event =
     event\<lparr>payload :=
       set_prop (set_prop (set_prop (payload event) ''watched'' (JBool True))
                          ''watchRuleLabel'' (JStr (rule_label rule)))
                ''watchRuleId'' (JStr (rule_id rule))\<rparr>"

text \<open>
  The loop of \<open>evaluate\<close> over \<open>rules\<close>. The event is one object: the annotation written for
  a matching rule is what the conditions of the following rules read, and every entry
  added for this event holds the object, so after the loop all of them show its last
  annotation. \<open>k\<close> counts the entries added so far, which stand at the front of the buffer.
\<close>

fun evaluate_loop ::
    "url_parser \<Rightarrow> nat \<Rightarrow> watch_rule list \<Rightarrow> daibug_event \<Rightarrow> watched_event list \<Rightarrow> nat
     \<Rightarrow> daibug_event \<times> watched_event list \<times> nat" where
  "evaluate_loop new_URL now [] event buf k = (event, buf, k)"
| "evaluate_loop new_URL now (rule # rest) event buf k =
     (if \<not> active rule then evaluate_loop new_URL now rest event buf k
      else if \<not> sourceMatches (rule_source rule) (source event)
        then evaluate_loop new_URL now rest event buf k
      else if \<not> conditionsMatch new_URL event (conditions rule)
        then evaluate_loop new_URL now rest event buf k
      else
        (let event' = annotate rule event
         in evaluate_loop new_URL now rest event' (addWatchedEvent now buf event' rule) (Suc k)))"

definition same_object :: "daibug_event \<Rightarrow> nat \<Rightarrow> watched_event list \<Rightarrow> watched_event list" where
  "same_object event k buf =
     map (\<lambda>w. w\<lparr>watched := event\<rparr>) (take k buf) @ drop k buf"

definition evaluate ::
    "url_parser \<Rightarrow> nat \<Rightarrow> daibug_event \<Rightarrow> watch_engine \<Rightarrow> bool \<times> daibug_event \<times> watch_engine" where
  "evaluate new_URL now event st =
     (let (event', buf, k) = evaluate_loop new_URL now (rules st) event (watchedEvents st) 0
      in (k > 0, event', st\<lparr>watchedEvents := same_object event' k buf\<rparr>))"

definition nextRuleId :: "nat \<Rightarrow> watch_engine \<Rightarrow> string \<times> watch_engine" where
  "nextRuleId now st =
     (let n = ruleSeq st + 1
      in (''rule_'' @ dec now @ ''_'' @ padStart3 (dec n), st\<lparr>ruleSeq := n\<rparr>))"

definition addRule ::
    "nat \<Rightarrow> string \<Rightarrow> event_source option \<Rightarrow> watch_conditions \<Rightarrow> watch_engine
     \<Rightarrow> watch_rule \<times> watch_engine" where
  "addRule now label src conds st =
     (let (rid, st1) = nextRuleId now st;
          rule = \<lparr>rule_id = rid, rule_label = label, rule_source = src, conditions = conds,
                  createdAt = now, active = True\<rparr>
      in (rule, st1\<lparr>rules := rules st1 @ [rule]\<rparr>))"

definition createWatchRuleEngine :: watch_engine where
  "createWatchRuleEngine = \<lparr>rules = [], watchedEvents = [], ruleSeq = 0\<rparr>"

text \<open>The engine's listener, as \<open>createWatchRuleEngine\<close> registers it with the hub.\<close>

definition watch_listener :: "url_parser \<Rightarrow> nat \<Rightarrow> watch_engine listener" where
  "watch_listener new_URL now event st =
     (let (matched, event', st') = evaluate new_URL now event st
      in \<lparr>event_after = event', world_after = st', threw = False, unsubscribed = False\<rparr>)"

subsection \<open>What the specification says of a rule and an event\<close>

text \<open>
  The conditions as the claim words them, a condition being specified when the rule gives
  it: \<open>claimed_satisfied\<close>. And with a condition given as an empty list or an empty string
  counted as not specified: \<open>rule_matches\<close>, which also asks for an active rule and a
  matching source.
\<close>

definition claimed_satisfied :: "url_parser \<Rightarrow> daibug_event \<Rightarrow> watch_conditions \<Rightarrow> bool" where
  "claimed_satisfied new_URL e c \<longleftrightarrow>
     (case statusCodes c of None \<Rightarrow> True
      | Some codes \<Rightarrow> (case get_prop (payload e) ''status'' of
                          JNum status \<Rightarrow> status \<in> set codes | _ \<Rightarrow> False))
     \<and> (case urlPattern c of None \<Rightarrow> True
        | Some pattern \<Rightarrow> (case get_prop (payload e) ''url'' of
                              JStr url \<Rightarrow> matchUrlPattern new_URL url pattern | _ \<Rightarrow> False))
     \<and> (case methods c of None \<Rightarrow> True
        | Some ms \<Rightarrow> (case get_prop (payload e) ''method'' of
                         JStr method \<Rightarrow> toUpperCase method \<in> set (map toUpperCase ms)
                       | _ \<Rightarrow> False))
     \<and> (case levels c of None \<Rightarrow> True | Some ls \<Rightarrow> level e \<in> set ls)
     \<and> (case messageContains c of None \<Rightarrow> True
        | Some text \<Rightarrow> (case get_prop (payload e) ''message'' of
                           JStr message \<Rightarrow> str_includes (toLowerCase message) (toLowerCase text)
                         | _ \<Rightarrow> False))
     \<and> (case payloadContains c of None \<Rightarrow> True
        | Some expected \<Rightarrow> deepPartialMatch (payload e) expected)"

definition rule_matches :: "url_parser \<Rightarrow> daibug_event \<Rightarrow> watch_rule \<Rightarrow> bool" where
  "rule_matches new_URL e r \<longleftrightarrow>
     active r
     \<and> sourceMatches (rule_source r) (source e)
     \<and> statusCodes_ok (payload e) (conditions r)
     \<and> urlPattern_ok new_URL (payload e) (conditions r)
     \<and> methods_ok (payload e) (conditions r)
     \<and> eventLevelMatches (levels (conditions r)) (level e)
     \<and> messageContains_ok (payload e) (conditions r)
     \<and> payloadContains_ok (payload e) (conditions r)"





subsection \<open>Concrete rules and events\<close>

definition no_conditions :: watch_conditions where
  "no_conditions =
     \<lparr>statusCodes = None, urlPattern = None, methods = None, levels = None,
      messageContains = None, payloadContains = None\<rparr>"


definition auth_rule :: watch_rule where
  "auth_rule =
     \<lparr>rule_id = ''rule_1000_001'', rule_label = ''auth failures'', rule_source = None,
      conditions = no_conditions\<lparr>statusCodes := Some [401], urlPattern := Some ''/api/**''\<rparr>,
      createdAt = 1000, active = True\<rparr>"

definition errors_rule :: watch_rule where
  "errors_rule =
     \<lparr>rule_id = ''rule_1000_002'', rule_label = ''errors'', rule_source = None,
      conditions = no_conditions\<lparr>levels := Some [Lvl_error]\<rparr>,
      createdAt = 1000, active = True\<rparr>"

definition status_event :: "rat \<Rightarrow> daibug_event" where
  "status_event code =
     \<lparr>event_id = ''evt_2000_001'', ts = 2000, source = Src_browser_network, level = Lvl_error,
      payload = [(''url'', JStr ''/api/user''), (''status'', JNum code)]\<rparr>"

definition engine_with :: "watch_rule list \<Rightarrow> watch_engine" where
  "engine_with rs = createWatchRuleEngine\<lparr>rules := rs\<rparr>"

definition watched_flag_rule :: watch_rule where
  "watched_flag_rule =
     \<lparr>rule_id = ''rule_1000_003'', rule_label = ''already watched'', rule_source = None,
      conditions = no_conditions\<lparr>payloadContains := Some [(''watched'', JBool True)]\<rparr>,
      createdAt = 1000, active = True\<rparr>"

section \<open>Properties of the bounded ring\<close>

lemma cap_push [simp]: "cap (push r x) = cap r"
  by (simp add: push_def Let_def)

lemma cap_clear [simp]: "cap (clear r) = cap r"
  by (simp add: clear_def)

lemma cap_foldl_push [simp]: "cap (foldl push r xs) = cap r"
  by (induction xs arbitrary: r) simp_all

lemma push_items_bounded:
  assumes "1 \<le> cap r" and "length (items r) \<le> cap r"
  shows "items (push r x) = drop (length (items r) + 1 - cap r) (items r @ [x])"
proof (cases "length (items r) = cap r")
  case True
  then have "items r \<noteq> []" using assms(1) by auto
  then have "tl (items r) @ [x] = drop 1 (items r @ [x])"
    by (cases "items r") simp_all
  with True show ?thesis by (simp add: push_def Let_def)
next
  case False
  with assms(2) have "length (items r) < cap r" by simp
  then show ?thesis by (simp add: push_def Let_def)
qed

lemma push_size_bounded:
  assumes "1 \<le> cap r" and "length (items r) \<le> cap r"
  shows "length (items (push r x)) \<le> cap r"
  using assms by (simp add: push_items_bounded)

lemma foldl_push_items:
  assumes "1 \<le> cap r" and "length (items r) \<le> cap r"
  shows "items (foldl push r xs) = drop (length (items r @ xs) - cap r) (items r @ xs)"
  using assms
proof (induction xs arbitrary: r)
  case Nil
  then show ?case by simp
next
  case (Cons x xs)
  let ?k = "length (items r) + 1 - cap r"
  have b: "length (items (push r x)) \<le> cap (push r x)"
    using Cons.prems by (simp add: push_size_bounded)
  have c: "1 \<le> cap (push r x)" using Cons.prems by simp
  have p: "items (push r x) = drop ?k (items r @ [x])"
    using Cons.prems by (rule push_items_bounded)
  have k0: "?k - length (items r @ [x]) = 0" by simp
  have "drop ?k ((items r @ [x]) @ xs) = drop ?k (items r @ [x]) @ drop (?k - length (items r @ [x])) xs"
    by (rule drop_append)
  then have q: "items (push r x) @ xs = drop ?k (items r @ x # xs)"
    unfolding p k0 by simp
  have "items (foldl push (push r x) xs)
        = drop (length (items (push r x) @ xs) - cap r) (items (push r x) @ xs)"
    using Cons.IH [OF c b] by simp
  also have "\<dots> = drop (length (drop ?k (items r @ x # xs)) - cap r + ?k) (items r @ x # xs)"
    unfolding q by (simp only: drop_drop)
  also have "length (drop ?k (items r @ x # xs)) - cap r + ?k = length (items r @ x # xs) - cap r"
    using Cons.prems by simp
  finally show ?case by simp
qed

lemma ring_step_bounded:
  assumes "1 \<le> cap r" and "length (items r) \<le> cap r"
  shows "cap (ring_step r c) = cap r \<and> length (items (ring_step r c)) \<le> cap r"
  using assms by (cases c) (simp_all add: push_size_bounded clear_def)

lemma ring_run_bounded:
  assumes "1 \<le> cap r" and "length (items r) \<le> cap r"
  shows "cap (ring_run r ops) = cap r \<and> length (items (ring_run r ops)) \<le> cap r"
  using assms unfolding ring_run_def
proof (induction ops arbitrary: r)
  case Nil
  then show ?case by simp
next
  case (Cons c ops)
  from ring_step_bounded [OF Cons.prems, of c]
  have s: "cap (ring_step r c) = cap r" "length (items (ring_step r c)) \<le> cap r"
    by simp_all
  from Cons.IH [of "ring_step r c"] s Cons.prems show ?case by simp
qed

text \<open>
  Claim C3. For every capacity \<open>N \<ge> 1\<close> and every sequence \<open>S\<close> pushed into a fresh ring of
  capacity \<open>N\<close>, \<open>toArray\<close> returns the last \<open>min |S| N\<close> elements of \<open>S\<close> in insertion order,
  and after every run of \<open>push\<close> and \<open>clear\<close> operations the size is at most the capacity.
\<close>

theorem ring_buffer_keeps_last:
  fixes S :: "'a list"
  assumes "1 \<le> N"
  shows "toArray (foldl push (createRingBuffer N) S) = drop (length S - min (length S) N) S
         \<and> length (toArray (foldl push (createRingBuffer N) S)) = min (length S) N
         \<and> (\<forall>ops. size_rb (ring_run (createRingBuffer N :: 'a ring_buffer) ops)
                    \<le> capacity (ring_run (createRingBuffer N :: 'a ring_buffer) ops))"
proof -
  let ?r = "createRingBuffer N :: 'a ring_buffer"
  have c: "1 \<le> cap ?r" and b: "length (items ?r) \<le> cap ?r"
    using assms by (simp_all add: createRingBuffer_def)
  have "items (foldl push ?r S) = drop (length S - N) S"
    using foldl_push_items [OF c b, of S] by (simp add: createRingBuffer_def)
  moreover have "length S - N = length S - min (length S) N" by simp
  ultimately have 1: "toArray (foldl push ?r S) = drop (length S - min (length S) N) S"
    by (simp add: toArray_def)
  have 2: "length (toArray (foldl push ?r S)) = min (length S) N"
    unfolding 1 by simp
  have 3: "size_rb (ring_run ?r ops) \<le> capacity (ring_run ?r ops)" for ops
    using ring_run_bounded [OF c b, of ops] by (simp add: size_rb_def capacity_def)
  from 1 2 3 show ?thesis by blast
qed

theorem ring_buffer_keeps_last_witness:
  "toArray (foldl push (createRingBuffer 2) [1, 2, 3 :: nat]) = [2, 3]
   \<and> size_rb (ring_run (createRingBuffer 2) [Push (1::nat), Push 2, Clear, Push 3]) \<le> 2"
proof -
  have h: "(1::nat) \<le> 2" by simp
  note t = ring_buffer_keeps_last [OF h, of "[1, 2, 3 :: nat]"]
  from t have "toArray (foldl push (createRingBuffer 2) [1, 2, 3 :: nat])
               = drop (length [1, 2, 3 :: nat] - min (length [1, 2, 3 :: nat]) 2) [1, 2, 3]"
    by (rule conjunct1)
  also have "\<dots> = [2, 3]" by simp
  finally have a: "toArray (foldl push (createRingBuffer 2) [1, 2, 3 :: nat]) = [2, 3]" .
  from t have "size_rb (ring_run (createRingBuffer 2) [Push (1::nat), Push 2, Clear, Push 3])
        \<le> capacity (ring_run (createRingBuffer 2) [Push (1::nat), Push 2, Clear, Push 3])"
    by blast
  also have "capacity (ring_run (createRingBuffer 2) [Push (1::nat), Push 2, Clear, Push 3]) = 2"
    by (simp add: ring_run_def capacity_def createRingBuffer_def clear_def)
  finally show ?thesis using a by simp
qed

section \<open>Properties of the evaluation sandbox\<close>


















section \<open>Properties of the redactor\<close>





lemma set_prop_top:
  assumes "(k, v) \<in> set (set_prop obj k' x)"
  shows "(k, v) = (k', x) \<or> (k, v) \<in> set obj"
  using assms by (auto simp: set_prop_def split: if_splits)







section \<open>Properties of the hub\<close>

declare notify.simps [simp del]












text \<open>
  Claim C6 fails on the code: a message whose \<open>type\<close> is present but not recognised falls
  through to the branch meant for messages without a \<open>type\<close>, and is ingested.
\<close>

theorem handleWsMessage_unknown_type_ingested:
  "toArray (buffer (handleWsMessage URL_model 1234 (Some typed_unknown_message)
                      (started_hub ()))) =
     [\<lparr>event_id = ''evt_1234_001'', ts = 1234, source = Src_browser_console,
       level = Lvl_info, payload = [(''a'', JNum 1)]\<rparr>]"
  unfolding typed_unknown_message_def started_hub_def DEFAULT_REDACT_def
  by code_simp

section \<open>Properties of subscribing and of the waiting tools\<close>

lemma replay_result:
  "replay hid handler events h = (events', h') \<Longrightarrow>
     world h' = replay_world handler events (world h) \<and> length events' = length events"
proof (induction events arbitrary: h events' h')
  case Nil
  then show ?case by simp
next
  case (Cons event events)
  let ?r = "handler event (world h)"
  let ?h = "h\<lparr>world := world_after ?r,
              eventListeners := (if unsubscribed ?r then remove_listener hid (eventListeners h)
                                 else eventListeners h)\<rparr>"
  obtain es h2 where r: "replay hid handler events ?h = (es, h2)"
    by (cases "replay hid handler events ?h")
  from Cons.prems r have e: "events' = event_after ?r # es" and h: "h' = h2"
    by (simp_all add: Let_def)
  from Cons.IH [OF r] e h show ?case by simp
qed

lemma replay_world_foldl:
  "replay_world handler events w = foldl (\<lambda>w event. world_after (handler event w)) w events"
  by (induction events arbitrary: w) simp_all

text \<open>
  Subscribing calls the handler once on every event in the ring, oldest first, before it
  returns, whatever the handler throws.
\<close>

lemma onBrowserEvent_replays_backlog:
  "world (onBrowserEvent hid handler h)
     = foldl (\<lambda>w event. world_after (handler event w)) (world h) (toArray (buffer h))"
proof -
  let ?h1 = "h\<lparr>eventListeners := eventListeners h @ [(hid, handler)]\<rparr>"
  obtain es h2 where r: "replay hid handler (toArray (buffer ?h1)) ?h1 = (es, h2)"
    by (cases "replay hid handler (toArray (buffer ?h1)) ?h1")
  from replay_result [OF r] have "world h2 = replay_world handler (toArray (buffer h)) (world h)"
    by simp
  with r show ?thesis
    by (simp add: onBrowserEvent_def Let_def replay_world_foldl)
qed

lemma notify_settled:
  assumes "settled (world h)"
    and "\<forall>l \<in> set (eventListeners h). snd l = snapshot_dom_listener"
  shows "notify i e h = (e, h)"
  using assms
proof (induction "length (eventListeners h) - i" arbitrary: i)
  case 0
  then show ?case by (subst notify.simps) simp
next
  case (Suc n)
  then have i: "i < length (eventListeners h)" by simp
  obtain hid l where l: "eventListeners h ! i = (hid, l)" by (cases "eventListeners h ! i")
  with i Suc.prems(2) have "l = snapshot_dom_listener"
    by (metis nth_mem snd_conv)
  with Suc.prems(1) have r: "l e (world h) =
      \<lparr>event_after = e, world_after = world h, threw = False, unsubscribed = False\<rparr>"
    by (simp add: snapshot_dom_listener_def)
  have "n = length (eventListeners h) - Suc i" using Suc.hyps(2) by simp
  from Suc.hyps(1) [OF this Suc.prems] have "notify (Suc i) e h = (e, h)" .
  then show ?case
    using i l r by (subst notify.simps) (simp add: Let_def)
qed

lemma addEvent_stuck: "stuck h \<Longrightarrow> stuck (addEvent ev h)"
proof -
  assume s: "stuck h"
  let ?h2 = "h\<lparr>buffer := push (buffer h) ev,
               wss_frames := map_option (\<lambda>frames. frames @ [ev]) (wss_frames h)\<rparr>"
  from s have "notify 0 ev ?h2 = (ev, ?h2)"
    by (intro notify_settled) (simp_all add: stuck_def)
  with s show ?thesis by (simp add: addEvent_def Let_def stuck_def)
qed

lemma ingestEvent_stuck: "stuck h \<Longrightarrow> stuck (ingestEvent new_URL now src lvl pl h)"
proof -
  assume s: "stuck h"
  have u: "stuck (updateConnectedTabFromPayload now pl h)"
    using s by (simp add: updateConnectedTabFromPayload_def stuck_def Let_def split: jsval.splits)
  obtain ev f where c: "createEvent now src lvl pl (factory (updateConnectedTabFromPayload now pl h)) = (ev, f)"
    by (cases "createEvent now src lvl pl (factory (updateConnectedTabFromPayload now pl h))")
  have "stuck ((updateConnectedTabFromPayload now pl h)\<lparr>factory := f\<rparr>)"
    using u by (simp add: stuck_def)
  from addEvent_stuck [OF this] c show ?thesis
    by (simp add: ingestEvent_def Let_def)
qed

lemma later_stuck: "stuck h \<Longrightarrow> stuck (later new_URL now hid step h)"
proof (cases step)
  case (Ingest src lvl pl)
  assume "stuck h"
  from ingestEvent_stuck [OF this, of new_URL now src lvl pl] Ingest
  show ?thesis by (simp add: end_of_task_def stuck_def)
next
  case Timer
  assume "stuck h"
  with Timer show ?thesis by (simp add: snapshot_dom_timeout_def stuck_def)
qed

lemma later_steps_stuck:
  "stuck h \<Longrightarrow> stuck (foldl (\<lambda>h step. later new_URL now hid step h) h steps)"
  by (induction steps arbitrary: h) (simp_all add: later_stuck)

lemma subscribe_stale_stuck: "stuck (snapshot_dom_subscribe 1 hub_with_snapshot)"
  unfolding stuck_def snapshot_dom_subscribe_def hub_with_snapshot_def started_hub_def
    fresh_waiter_def dom_snapshot_event_def DEFAULT_REDACT_def
  by (simp add: onBrowserEvent_def Let_def toArray_def push_def createRingBuffer_def
      snapshot_dom_listener_def get_prop_def)

text \<open>
  Claim C9 fails on the code where it says that a waiting tool can resolve against a
  matching event already in the ring. The replay hands the stale \<open>dom_snapshot\<close> event to
  the listener of \<open>snapshot_dom\<close> before \<^verbatim>\<open>const unsubscribe\<close> is initialised: the listener
  sets \<open>settled\<close>, throws at \<open>unsubscribe()\<close>, the hub swallows the exception, and \<open>resolve\<close>
  is never reached, neither then nor by any later event nor by the timer.
\<close>

theorem snapshot_dom_stale_event_never_resolves:
  "settled (world (snapshot_dom_subscribe 1 hub_with_snapshot))
   \<and> (\<forall>steps. resolved (world (foldl (\<lambda>h step. later URL_model 2000 1 step h)
                    (snapshot_dom_subscribe 1 hub_with_snapshot) steps)) = None)"
proof -
  have "stuck (foldl (\<lambda>h step. later URL_model 2000 1 step h)
                 (snapshot_dom_subscribe 1 hub_with_snapshot) steps)" for steps
    using subscribe_stale_stuck by (rule later_steps_stuck)
  then show ?thesis
    using subscribe_stale_stuck by (simp add: stuck_def)
qed

section \<open>Properties of the watch-rule engine\<close>




lemma conditionsMatch_conj:
  "conditionsMatch new_URL e c \<longleftrightarrow>
     statusCodes_ok (payload e) c \<and> urlPattern_ok new_URL (payload e) c
     \<and> methods_ok (payload e) c \<and> eventLevelMatches (levels c) (level e)
     \<and> messageContains_ok (payload e) c \<and> payloadContains_ok (payload e) c"
  by (simp add: conditionsMatch_def)
















lemma claimed_satisfied_nonempty:
  assumes "statusCodes c \<noteq> Some []" and "urlPattern c \<noteq> Some []" and "methods c \<noteq> Some []"
    and "levels c \<noteq> Some []" and "messageContains c \<noteq> Some []"
  shows "claimed_satisfied new_URL e c \<longleftrightarrow> conditionsMatch new_URL e c"
proof -
  have 1: "statusCodes_ok (payload e) c \<longleftrightarrow>
      (case statusCodes c of None \<Rightarrow> True
      | Some codes \<Rightarrow> (case get_prop (payload e) ''status'' of
                          JNum status \<Rightarrow> status \<in> set codes | _ \<Rightarrow> False))"
    using assms(1) by (cases "statusCodes c") (simp_all add: statusCodes_ok_def)
  have 2: "urlPattern_ok new_URL (payload e) c \<longleftrightarrow>
      (case urlPattern c of None \<Rightarrow> True
        | Some pattern \<Rightarrow> (case get_prop (payload e) ''url'' of
                              JStr url \<Rightarrow> matchUrlPattern new_URL url pattern | _ \<Rightarrow> False))"
    using assms(2) by (cases "urlPattern c") (simp_all add: urlPattern_ok_def)
  have 3: "methods_ok (payload e) c \<longleftrightarrow>
      (case methods c of None \<Rightarrow> True
        | Some ms \<Rightarrow> (case get_prop (payload e) ''method'' of
                         JStr method \<Rightarrow> toUpperCase method \<in> set (map toUpperCase ms)
                       | _ \<Rightarrow> False))"
    using assms(3) by (cases "methods c") (simp_all add: methods_ok_def)
  have 4: "eventLevelMatches (levels c) (level e) \<longleftrightarrow>
      (case levels c of None \<Rightarrow> True | Some ls \<Rightarrow> level e \<in> set ls)"
    using assms(4) by (cases "levels c") (simp_all add: eventLevelMatches_def)
  have 5: "messageContains_ok (payload e) c \<longleftrightarrow>
      (case messageContains c of None \<Rightarrow> True
        | Some text \<Rightarrow> (case get_prop (payload e) ''message'' of
                           JStr message \<Rightarrow> str_includes (toLowerCase message) (toLowerCase text)
                         | _ \<Rightarrow> False))"
    using assms(5) by (cases "messageContains c") (simp_all add: messageContains_ok_def)
  show ?thesis
    unfolding claimed_satisfied_def conditionsMatch_conj 1 2 3 4 5 payloadContains_ok_def
    by (rule refl)
qed




lemma auth_rule_rejects_200: "\<not> rule_matches URL_model (status_event 200) auth_rule"
  unfolding status_event_def auth_rule_def no_conditions_def by code_simp



text \<open>
  A rule that does ask for a key the engine writes sees what an earlier rule wrote: the
  event below has no \<open>watched\<close> key, yet \<open>watched_flag_rule\<close> matches it once \<open>errors_rule\<close> has.
\<close>

lemma evaluate_reads_earlier_annotation:
  "\<not> rule_matches URL_model (status_event 500) watched_flag_rule
   \<and> map matchedRule_label
       (watchedEvents (snd (snd (evaluate URL_model 3000 (status_event 500)
           (engine_with [errors_rule, watched_flag_rule])))))
     = [''already watched'', ''errors'']"
proof -
  have 1: "\<not> rule_matches URL_model (status_event 500) watched_flag_rule"
    unfolding status_event_def watched_flag_rule_def no_conditions_def by code_simp
  have 2: "map matchedRule_label
       (watchedEvents (snd (snd (evaluate URL_model 3000 (status_event 500)
           (engine_with [errors_rule, watched_flag_rule])))))
     = [''already watched'', ''errors'']"
    unfolding status_event_def watched_flag_rule_def errors_rule_def no_conditions_def
      engine_with_def createWatchRuleEngine_def
    by code_simp
  from 1 2 show ?thesis ..
qed

subsection \<open>The compiled expression and the glob\<close>

declare replace_all.simps [simp del]

declare parse_items.simps [simp del]
















lemma starts_with_tl: "starts_with (a # w) (c # s) \<Longrightarrow> starts_with w s"
  by simp












lemma str_includes_Cons: "str_includes s w \<Longrightarrow> str_includes (c # s) w"
  by simp

lemma str_includes_start: "starts_with w (c # s) \<Longrightarrow> str_includes (c # s) w"
  by simp















text \<open>
  Two inputs on which the compiled expression and the glob part: the dot of \<^verbatim>\<open>.*\<close> stops
  at a line terminator, and a pattern that spells the marker text is rewritten with it.
\<close>

lemma toGlobRegex_line_terminator:
  "glob_matches ''/api/*'' (''/api/a'' @ [CHR 0x0A] @ ''b'')
   \<and> \<not> isRedactedUrl URL_model \<lparr>redact_fields = [], redact_urlPatterns = [''/api/*'']\<rparr>
         (''/api/a'' @ [CHR 0x0A] @ ''b'')"
  by code_simp

lemma toGlobRegex_marker_text:
  "\<not> glob_matches ''/__DOUBLE_STAR__/x'' ''/a/b/x''
   \<and> isRedactedUrl URL_model \<lparr>redact_fields = [], redact_urlPatterns = [''/__DOUBLE_STAR__/x'']\<rparr>
        ''/a/b/x''"
  by code_simp

end
